theory Spec2Isabelle
  imports Complex_Main
begin

section \<open>Python values and exceptions\<close>

text \<open>
  The index maps of \<^verbatim>\<open>distarray/local/maps.py\<close> compute on Python integers, which are
  unbounded: they are modelled as \<^typ>\<open>int\<close>.  Python's \<^verbatim>\<open>//\<close> and \<^verbatim>\<open>%\<close> round towards
  minus infinity and give the remainder the sign of the divisor, exactly as \<open>div\<close> and
  \<open>mod\<close> on \<^typ>\<open>int\<close> do; the one difference, division by zero, is written out as
  \<open>ZeroDivisionError\<close> wherever the source divides.  Every exception the source can raise
  is a value of \<open>py_error\<close>, and a function that can raise returns \<open>py_error + 'a\<close>.
\<close>

datatype py_error =
  ValueError | IndexError | KeyError | TypeError | ZeroDivisionError | AttributeError

text \<open>\<^verbatim>\<open>range(n)\<close>, \<^verbatim>\<open>range(a, b)\<close> and \<^verbatim>\<open>range(a, b, step)\<close>; a zero step raises.\<close>

definition py_range :: "int \<Rightarrow> int list" where
  "py_range n = [0..n - 1]"

definition py_range2 :: "int \<Rightarrow> int \<Rightarrow> int list" where
  "py_range2 a b = [a..b - 1]"

definition py_range3 :: "int \<Rightarrow> int \<Rightarrow> int \<Rightarrow> py_error + int list" where
  "py_range3 a b step =
     (if step = 0 then Inl ValueError
      else if 0 < step then Inr (map (\<lambda>k. a + k * step) (py_range ((b - a - 1) div step + 1)))
      else Inr (map (\<lambda>k. a + k * step) (py_range ((a - b - 1) div (- step) + 1))))"

text \<open>\<^verbatim>\<open>xs[i]\<close> on a list or tuple: a negative index counts from the end.\<close>

definition py_getitem :: "'a list \<Rightarrow> int \<Rightarrow> py_error + 'a" where
  "py_getitem xs i =
     (if 0 \<le> i \<and> i < int (length xs) then Inr (xs ! nat i)
      else if i < 0 \<and> - int (length xs) \<le> i then Inr (xs ! nat (int (length xs) + i))
      else Inl IndexError)"

text \<open>\<^verbatim>\<open>xs.index(x)\<close>: the first position of \<open>x\<close>, \<open>ValueError\<close> when it is absent.\<close>

fun py_list_index :: "'a list \<Rightarrow> 'a \<Rightarrow> py_error + int" where
  "py_list_index [] x = Inl ValueError"
| "py_list_index (y # ys) x =
     (if y = x then Inr 0
      else (case py_list_index ys x of Inl e \<Rightarrow> Inl e | Inr i \<Rightarrow> Inr (i + 1)))"

text \<open>
  \<^verbatim>\<open>dict(zip(keys, values))\<close>: \<^verbatim>\<open>zip\<close> stops at the shorter sequence, and a key that
  occurs twice keeps the value inserted last.
\<close>

definition py_dict_zip :: "'k list \<Rightarrow> 'v list \<Rightarrow> ('k \<rightharpoonup> 'v)" where
  "py_dict_zip ks vs = map_of (rev (zip ks vs))"


text \<open>
  A comprehension or generator evaluates its elements from left to right and the first
  exception ends it.
\<close>

fun collect :: "(py_error + 'a) list \<Rightarrow> py_error + 'a list" where
  "collect [] = Inr []"
| "collect (x # xs) =
     (case x of
        Inl e \<Rightarrow> Inl e
      | Inr v \<Rightarrow> (case collect xs of Inl e \<Rightarrow> Inl e | Inr vs \<Rightarrow> Inr (v # vs)))"

section \<open>The axis descriptor\<close>

text \<open>
  The dictionary \<^verbatim>\<open>dd\<close> read by \<^verbatim>\<open>map_from_dim_dict\<close> and written by the \<^verbatim>\<open>dim_dict\<close>
  properties.  Each key may be absent.
\<close>

record dim_dict =
  dist_type :: "string option"
  size :: "int option"
  proc_grid_rank :: "int option"
  proc_grid_size :: "int option"
  start :: "int option"
  stop :: "int option"
  block_size :: "int option"
  indices :: "int list option"

section \<open>The four index maps\<close>

record BlockMap =
  start :: int
  stop :: int
  local_size :: int
  global_size :: int
  grid_size :: int
  grid_rank :: int

record CyclicMap =
  start :: int
  grid_size :: int
  grid_rank :: int
  local_size :: int
  global_size :: int

text \<open>\<^verbatim>\<open>BlockCyclicMap.__init__\<close> never assigns \<^verbatim>\<open>self.grid_rank\<close>: the object has no such attribute.\<close>

record BlockCyclicMap =
  start :: int
  start_block :: int
  block_size :: int
  grid_size :: int
  local_size :: int
  global_size :: int

record UnstructuredMap =
  global_size :: int
  grid_size :: int
  grid_rank :: int
  indices :: "int list"
  local_size :: int
  private_local_index :: "int \<rightharpoonup> int"

subsection \<open>BlockMap\<close>

definition BlockMap_init :: "int \<Rightarrow> int \<Rightarrow> int \<Rightarrow> int \<Rightarrow> int \<Rightarrow> BlockMap" where
  "BlockMap_init global_size' grid_size' grid_rank' start' stop' =
     \<lparr>BlockMap.start = start', BlockMap.stop = stop', BlockMap.local_size = stop' - start',
      BlockMap.global_size = global_size', BlockMap.grid_size = grid_size',
      BlockMap.grid_rank = grid_rank'\<rparr>"

definition BlockMap_local_from_global :: "BlockMap \<Rightarrow> int \<Rightarrow> py_error + int" where
  "BlockMap_local_from_global self gidx =
     (if gidx < BlockMap.start self \<or> gidx \<ge> BlockMap.stop self then Inl IndexError
      else Inr (gidx - BlockMap.start self))"

definition BlockMap_global_from_local :: "BlockMap \<Rightarrow> int \<Rightarrow> py_error + int" where
  "BlockMap_global_from_local self lidx =
     (if lidx \<ge> BlockMap.local_size self then Inl IndexError
      else Inr (lidx + BlockMap.start self))"

definition BlockMap_dim_dict :: "BlockMap \<Rightarrow> dim_dict" where
  "BlockMap_dim_dict self =
     \<lparr>dim_dict.dist_type = Some ''b'', dim_dict.size = Some (BlockMap.global_size self),
      dim_dict.proc_grid_rank = Some (BlockMap.grid_rank self),
      dim_dict.proc_grid_size = Some (BlockMap.grid_size self),
      dim_dict.start = Some (BlockMap.start self), dim_dict.stop = Some (BlockMap.stop self),
      dim_dict.block_size = None, dim_dict.indices = None\<rparr>"

definition BlockMap_global_index :: "BlockMap \<Rightarrow> int list" where
  "BlockMap_global_index self = py_range2 (BlockMap.start self) (BlockMap.stop self)"


subsection \<open>CyclicMap\<close>

definition CyclicMap_init :: "int \<Rightarrow> int \<Rightarrow> int \<Rightarrow> int \<Rightarrow> py_error + CyclicMap" where
  "CyclicMap_init global_size' grid_size' grid_rank' start' =
     (if start' \<noteq> grid_rank' then Inl ValueError
      else if start' \<ge> grid_size' then Inl ValueError
      else if grid_size' = 0 then Inl ZeroDivisionError
      else Inr \<lparr>CyclicMap.start = start', CyclicMap.grid_size = grid_size',
                CyclicMap.grid_rank = grid_rank',
                CyclicMap.local_size = (global_size' - 1 - grid_rank') div grid_size' + 1,
                CyclicMap.global_size = global_size'\<rparr>)"

definition CyclicMap_local_from_global :: "CyclicMap \<Rightarrow> int \<Rightarrow> py_error + int" where
  "CyclicMap_local_from_global self gidx =
     (if CyclicMap.grid_size self = 0 then Inl ZeroDivisionError
      else if (gidx - CyclicMap.start self) mod CyclicMap.grid_size self \<noteq> 0 then Inl IndexError
      else Inr ((gidx - CyclicMap.start self) div CyclicMap.grid_size self))"

definition CyclicMap_global_from_local :: "CyclicMap \<Rightarrow> int \<Rightarrow> py_error + int" where
  "CyclicMap_global_from_local self lidx =
     (if lidx \<ge> CyclicMap.local_size self then Inl IndexError
      else Inr ((lidx * CyclicMap.grid_size self) + CyclicMap.start self))"

definition CyclicMap_dim_dict :: "CyclicMap \<Rightarrow> dim_dict" where
  "CyclicMap_dim_dict self =
     \<lparr>dim_dict.dist_type = Some ''c'', dim_dict.size = Some (CyclicMap.global_size self),
      dim_dict.proc_grid_rank = Some (CyclicMap.grid_rank self),
      dim_dict.proc_grid_size = Some (CyclicMap.grid_size self),
      dim_dict.start = Some (CyclicMap.start self), dim_dict.stop = None,
      dim_dict.block_size = None, dim_dict.indices = None\<rparr>"

definition CyclicMap_global_index :: "CyclicMap \<Rightarrow> py_error + int list" where
  "CyclicMap_global_index self =
     py_range3 (CyclicMap.start self) (CyclicMap.global_size self) (CyclicMap.grid_size self)"


subsection \<open>BlockCyclicMap\<close>

definition BlockCyclicMap_init ::
  "int \<Rightarrow> int \<Rightarrow> int \<Rightarrow> int \<Rightarrow> int \<Rightarrow> py_error + BlockCyclicMap" where
  "BlockCyclicMap_init global_size' grid_size' grid_rank' start' block_size' =
     (if block_size' = 0 then Inl ZeroDivisionError
      else if start' mod block_size' \<noteq> 0 then Inl ValueError
      else if (global_size' div block_size') * block_size' \<noteq> global_size' then Inl ValueError
      else if grid_size' = 0 then Inl ZeroDivisionError
      else Inr \<lparr>BlockCyclicMap.start = start',
                BlockCyclicMap.start_block = start' div block_size',
                BlockCyclicMap.block_size = block_size',
                BlockCyclicMap.grid_size = grid_size',
                BlockCyclicMap.local_size =
                  ((global_size' div block_size' - 1 - grid_rank') div grid_size' + 1) * block_size',
                BlockCyclicMap.global_size = global_size'\<rparr>)"

definition BlockCyclicMap_local_from_global :: "BlockCyclicMap \<Rightarrow> int \<Rightarrow> py_error + int" where
  "BlockCyclicMap_local_from_global self gidx =
     (if BlockCyclicMap.block_size self = 0 then Inl ZeroDivisionError
      else
        let global_block = gidx div BlockCyclicMap.block_size self;
            offset = gidx mod BlockCyclicMap.block_size self
        in if BlockCyclicMap.grid_size self = 0 then Inl ZeroDivisionError
           else if (global_block - BlockCyclicMap.start_block self)
                     mod BlockCyclicMap.grid_size self \<noteq> 0
           then Inl IndexError
           else Inr (BlockCyclicMap.block_size self *
                       ((global_block - BlockCyclicMap.start_block self)
                          div BlockCyclicMap.grid_size self) + offset))"

definition BlockCyclicMap_global_from_local :: "BlockCyclicMap \<Rightarrow> int \<Rightarrow> py_error + int" where
  "BlockCyclicMap_global_from_local self lidx =
     (if lidx \<ge> BlockCyclicMap.local_size self then Inl IndexError
      else if BlockCyclicMap.block_size self = 0 then Inl ZeroDivisionError
      else
        let local_block = lidx div BlockCyclicMap.block_size self;
            offset = lidx mod BlockCyclicMap.block_size self;
            global_block = (local_block * BlockCyclicMap.grid_size self)
                             + BlockCyclicMap.start_block self
        in Inr (global_block * BlockCyclicMap.block_size self + offset))"

text \<open>
  The dictionary display reads \<^verbatim>\<open>self.dist\<close>, \<^verbatim>\<open>self.global_size\<close> and then
  \<^verbatim>\<open>self.grid_rank\<close>, an attribute that neither the instance nor its classes define.
\<close>

definition BlockCyclicMap_dim_dict :: "BlockCyclicMap \<Rightarrow> py_error + dim_dict" where
  "BlockCyclicMap_dim_dict self = Inl AttributeError"

text \<open>
  \<^verbatim>\<open>global_index\<close> fills an array of \<^verbatim>\<open>local_size\<close> elements with
  \<^verbatim>\<open>global_from_local(i)\<close>; allocating an array of negative length raises \<open>ValueError\<close>.
  The array is kept as the list of the integers that \<^verbatim>\<open>global_from_local\<close> returns:
  its 32-bit element type is not modelled, so the values are taken to fit it.
\<close>

definition BlockCyclicMap_global_index :: "BlockCyclicMap \<Rightarrow> py_error + int list" where
  "BlockCyclicMap_global_index self =
     (if BlockCyclicMap.local_size self < 0 then Inl ValueError
      else collect (map (BlockCyclicMap_global_from_local self)
                        (py_range (BlockCyclicMap.local_size self))))"


subsection \<open>UnstructuredMap\<close>

definition UnstructuredMap_init :: "int \<Rightarrow> int \<Rightarrow> int \<Rightarrow> int list \<Rightarrow> UnstructuredMap" where
  "UnstructuredMap_init global_size' grid_size' grid_rank' indices' =
     \<lparr>UnstructuredMap.global_size = global_size', UnstructuredMap.grid_size = grid_size',
      UnstructuredMap.grid_rank = grid_rank', UnstructuredMap.indices = indices',
      UnstructuredMap.local_size = int (length indices'),
      UnstructuredMap.private_local_index =
        py_dict_zip indices' (py_range (int (length indices')))\<rparr>"

definition UnstructuredMap_local_from_global :: "UnstructuredMap \<Rightarrow> int \<Rightarrow> py_error + int" where
  "UnstructuredMap_local_from_global self gidx =
     (case py_list_index (UnstructuredMap.indices self) gidx of
        Inl e \<Rightarrow> Inl IndexError
      | Inr lidx \<Rightarrow> Inr lidx)"

definition UnstructuredMap_global_from_local :: "UnstructuredMap \<Rightarrow> int \<Rightarrow> py_error + int" where
  "UnstructuredMap_global_from_local self lidx = py_getitem (UnstructuredMap.indices self) lidx"

definition UnstructuredMap_dim_dict :: "UnstructuredMap \<Rightarrow> dim_dict" where
  "UnstructuredMap_dim_dict self =
     \<lparr>dim_dict.dist_type = Some ''u'', dim_dict.size = Some (UnstructuredMap.global_size self),
      dim_dict.proc_grid_rank = Some (UnstructuredMap.grid_rank self),
      dim_dict.proc_grid_size = Some (UnstructuredMap.grid_size self),
      dim_dict.start = None, dim_dict.stop = None, dim_dict.block_size = None,
      dim_dict.indices = Some (UnstructuredMap.indices self)\<rparr>"

definition UnstructuredMap_global_index :: "UnstructuredMap \<Rightarrow> int list" where
  "UnstructuredMap_global_index self = UnstructuredMap.indices self"


section \<open>Maps as one type\<close>

text \<open>
  The four classes share the base class \<^verbatim>\<open>MapBase\<close> and are used through the same
  method names; a value of \<open>AxisMap\<close> is an instance of one of them, and each method
  dispatches on the class.
\<close>

datatype AxisMap =
  Block BlockMap | Cyclic CyclicMap | BlockCyclic BlockCyclicMap | Unstructured UnstructuredMap

fun AxisMap_local_size :: "AxisMap \<Rightarrow> int" where
  "AxisMap_local_size (Block m) = BlockMap.local_size m"
| "AxisMap_local_size (Cyclic m) = CyclicMap.local_size m"
| "AxisMap_local_size (BlockCyclic m) = BlockCyclicMap.local_size m"
| "AxisMap_local_size (Unstructured m) = UnstructuredMap.local_size m"

fun AxisMap_local_from_global :: "AxisMap \<Rightarrow> int \<Rightarrow> py_error + int" where
  "AxisMap_local_from_global (Block m) gidx = BlockMap_local_from_global m gidx"
| "AxisMap_local_from_global (Cyclic m) gidx = CyclicMap_local_from_global m gidx"
| "AxisMap_local_from_global (BlockCyclic m) gidx = BlockCyclicMap_local_from_global m gidx"
| "AxisMap_local_from_global (Unstructured m) gidx = UnstructuredMap_local_from_global m gidx"

fun AxisMap_global_from_local :: "AxisMap \<Rightarrow> int \<Rightarrow> py_error + int" where
  "AxisMap_global_from_local (Block m) lidx = BlockMap_global_from_local m lidx"
| "AxisMap_global_from_local (Cyclic m) lidx = CyclicMap_global_from_local m lidx"
| "AxisMap_global_from_local (BlockCyclic m) lidx = BlockCyclicMap_global_from_local m lidx"
| "AxisMap_global_from_local (Unstructured m) lidx = UnstructuredMap_global_from_local m lidx"

fun AxisMap_global_index :: "AxisMap \<Rightarrow> py_error + int list" where
  "AxisMap_global_index (Block m) = Inr (BlockMap_global_index m)"
| "AxisMap_global_index (Cyclic m) = CyclicMap_global_index m"
| "AxisMap_global_index (BlockCyclic m) = BlockCyclicMap_global_index m"
| "AxisMap_global_index (Unstructured m) = Inr (UnstructuredMap_global_index m)"


text \<open>The \<^verbatim>\<open>size\<close> property of every class: \<^verbatim>\<open>len(self.global_index)\<close>.\<close>

definition AxisMap_size :: "AxisMap \<Rightarrow> py_error + int" where
  "AxisMap_size m =
     (case AxisMap_global_index m of Inl e \<Rightarrow> Inl e | Inr gi \<Rightarrow> Inr (int (length gi)))"

fun AxisMap_dim_dict :: "AxisMap \<Rightarrow> py_error + dim_dict" where
  "AxisMap_dim_dict (Block m) = Inr (BlockMap_dim_dict m)"
| "AxisMap_dim_dict (Cyclic m) = Inr (CyclicMap_dim_dict m)"
| "AxisMap_dim_dict (BlockCyclic m) = BlockCyclicMap_dim_dict m"
| "AxisMap_dim_dict (Unstructured m) = Inr (UnstructuredMap_dim_dict m)"

text \<open>
  A constructor call, as data: the class and the arguments in the order of its
  \<^verbatim>\<open>__init__\<close>.  \<open>construct\<close> runs the call.
\<close>

datatype ctor_call =
  NewBlockMap int int int int int
| NewCyclicMap int int int int
| NewBlockCyclicMap int int int int int
| NewUnstructuredMap int int int "int list"

fun construct :: "ctor_call \<Rightarrow> py_error + AxisMap" where
  "construct (NewBlockMap global_size' grid_size' grid_rank' start' stop') =
     Inr (Block (BlockMap_init global_size' grid_size' grid_rank' start' stop'))"
| "construct (NewCyclicMap global_size' grid_size' grid_rank' start') =
     (case CyclicMap_init global_size' grid_size' grid_rank' start' of
        Inl e \<Rightarrow> Inl e | Inr m \<Rightarrow> Inr (Cyclic m))"
| "construct (NewBlockCyclicMap global_size' grid_size' grid_rank' start' block_size') =
     (case BlockCyclicMap_init global_size' grid_size' grid_rank' start' block_size' of
        Inl e \<Rightarrow> Inl e | Inr m \<Rightarrow> Inr (BlockCyclic m))"
| "construct (NewUnstructuredMap global_size' grid_size' grid_rank' indices') =
     Inr (Unstructured (UnstructuredMap_init global_size' grid_size' grid_rank' indices'))"

text \<open>Building a map and calling one method on it, as one expression.\<close>

definition local_size_of :: "ctor_call \<Rightarrow> py_error + int" where
  "local_size_of c = (case construct c of Inl e \<Rightarrow> Inl e | Inr m \<Rightarrow> Inr (AxisMap_local_size m))"

definition local_from_global_of :: "ctor_call \<Rightarrow> int \<Rightarrow> py_error + int" where
  "local_from_global_of c gidx =
     (case construct c of Inl e \<Rightarrow> Inl e | Inr m \<Rightarrow> AxisMap_local_from_global m gidx)"

definition global_from_local_of :: "ctor_call \<Rightarrow> int \<Rightarrow> py_error + int" where
  "global_from_local_of c lidx =
     (case construct c of Inl e \<Rightarrow> Inl e | Inr m \<Rightarrow> AxisMap_global_from_local m lidx)"

definition global_index_of :: "ctor_call \<Rightarrow> py_error + int list" where
  "global_index_of c = (case construct c of Inl e \<Rightarrow> Inl e | Inr m \<Rightarrow> AxisMap_global_index m)"

definition size_of :: "ctor_call \<Rightarrow> py_error + int" where
  "size_of c = (case construct c of Inl e \<Rightarrow> Inl e | Inr m \<Rightarrow> AxisMap_size m)"

section \<open>The factory\<close>

text \<open>
  \<^verbatim>\<open>map_from_dim_dict\<close>.  \<^verbatim>\<open>dd['dist_type']\<close> and \<^verbatim>\<open>dd['size']\<close> raise \<open>KeyError\<close>
  when the key is absent; the other keys are read with \<^verbatim>\<open>dd.get\<close> and a default.  An
  absent \<^verbatim>\<open>start\<close>, \<^verbatim>\<open>stop\<close> or \<^verbatim>\<open>indices\<close> is \<^verbatim>\<open>None\<close>, and the first thing each
  constructor does with it (\<^verbatim>\<open>stop - start\<close>, formatting the message for
  \<^verbatim>\<open>start != grid_rank\<close>, \<^verbatim>\<open>start % block_size\<close>, \<^verbatim>\<open>list(indices)\<close>) raises \<open>TypeError\<close>.
\<close>

definition map_from_dim_dict :: "dim_dict \<Rightarrow> py_error + AxisMap" where
  "map_from_dim_dict dd =
     (case dim_dict.dist_type dd of
        None \<Rightarrow> Inl KeyError
      | Some dist_type' \<Rightarrow>
     (case dim_dict.size dd of
        None \<Rightarrow> Inl KeyError
      | Some size' \<Rightarrow>
        let start' = dim_dict.start dd;
            stop' = dim_dict.stop dd;
            grid_rank' = (case dim_dict.proc_grid_rank dd of None \<Rightarrow> 0 | Some r \<Rightarrow> r);
            grid_size' = (case dim_dict.proc_grid_size dd of None \<Rightarrow> 1 | Some p \<Rightarrow> p);
            block_size' = (case dim_dict.block_size dd of None \<Rightarrow> 1 | Some b \<Rightarrow> b);
            indices' = dim_dict.indices dd
        in
          if dist_type' = ''n'' then
            construct (NewBlockMap size' grid_size' grid_rank' 0 size')
          else if dist_type' = ''b'' then
            (case (start', stop') of
               (Some s, Some t) \<Rightarrow> construct (NewBlockMap size' grid_size' grid_rank' s t)
             | _ \<Rightarrow> Inl TypeError)
          else if dist_type' = ''c'' \<and> block_size' = 1 then
            (case start' of
               Some s \<Rightarrow> construct (NewCyclicMap size' grid_size' grid_rank' s)
             | None \<Rightarrow> Inl TypeError)
          else if dist_type' = ''c'' \<and> block_size' > 1 then
            (case start' of
               Some s \<Rightarrow> construct (NewBlockCyclicMap size' grid_size' grid_rank' s block_size')
             | None \<Rightarrow> Inl TypeError)
          else if dist_type' = ''u'' then
            (case indices' of
               Some idx \<Rightarrow> construct (NewUnstructuredMap size' grid_size' grid_rank' idx)
             | None \<Rightarrow> Inl TypeError)
          else Inl ValueError))"

text \<open>\<^verbatim>\<open>map_from_dim_dict(m.dim_dict)\<close> for a freshly constructed \<^verbatim>\<open>m\<close>.\<close>

definition dim_dict_of :: "ctor_call \<Rightarrow> py_error + dim_dict" where
  "dim_dict_of c = (case construct c of Inl e \<Rightarrow> Inl e | Inr m \<Rightarrow> AxisMap_dim_dict m)"

definition rebuild :: "AxisMap \<Rightarrow> py_error + AxisMap" where
  "rebuild m = (case AxisMap_dim_dict m of Inl e \<Rightarrow> Inl e | Inr dd \<Rightarrow> map_from_dim_dict dd)"

section \<open>MDMap\<close>






section \<open>Reconstruction from a descriptor table\<close>


section \<open>Notions used to state the properties\<close>

text \<open>\<^verbatim>\<open>m.local_from_global(m.global_from_local(lidx))\<close>.\<close>

definition roundtrip :: "AxisMap \<Rightarrow> int \<Rightarrow> py_error + int" where
  "roundtrip m lidx =
     (case AxisMap_global_from_local m lidx of
        Inl e \<Rightarrow> Inl e
      | Inr g \<Rightarrow> AxisMap_local_from_global m g)"

text \<open>The index list handed to \<^verbatim>\<open>UnstructuredMap\<close> has no repeated entry.\<close>

fun duplicate_free :: "ctor_call \<Rightarrow> bool" where
  "duplicate_free (NewUnstructuredMap global_size' grid_size' grid_rank' indices') =
     distinct indices'"
| "duplicate_free c = True"

text \<open>
  The specification's \<open>ceil_div\<close>, following its words: the quotient rounded up to the
  next integer.  The source never computes it in this form.
\<close>

definition ceil_div :: "int \<Rightarrow> int \<Rightarrow> int" where
  "ceil_div a b = \<lceil>real_of_int a / real_of_int b\<rceil>"










section \<open>Verified properties\<close>

subsection \<open>Facts about the Python helpers\<close>

lemma length_py_range: "length (py_range n) = nat n"
  by (simp add: py_range_def)

lemma set_py_range: "set (py_range n) = {0..<n}"
  by (auto simp: py_range_def)


lemma distinct_py_range: "distinct (py_range n)"
  by (simp add: py_range_def)

lemma py_list_index_nth:
  "distinct xs \<Longrightarrow> i < length xs \<Longrightarrow> py_list_index xs (xs ! i) = Inr (int i)"
proof (induction xs arbitrary: i)
  case Nil
  then show ?case by simp
next
  case (Cons y ys)
  show ?case
  proof (cases i)
    case 0
    then show ?thesis by simp
  next
    case (Suc j)
    with Cons.prems have "j < length ys" and "ys ! j \<noteq> y" and "distinct ys"
      by auto
    with Cons.IH[of j] Suc show ?thesis by auto
  qed
qed

lemma div_mult_le_int: "0 < p \<Longrightarrow> (x div p) * p \<le> (x::int)"
  using div_mult_mod_eq[of x p] pos_mod_sign[of p x] by linarith

lemma ceil_div_eq: "ceil_div a b = - ((- a) div b)"
  unfolding ceil_div_def ceiling_def
  by (metis floor_divide_of_int_eq minus_divide_left of_int_minus)

lemma ceil_div_floor:
  assumes "0 < b"
  shows "ceil_div a b = (a - 1) div b + 1"
proof -
  have "(- a) div b = - ((a - 1) div b + 1)"
  proof (rule int_div_pos_eq[where r = "b - 1 - (a - 1) mod b"])
    have "a - 1 = b * ((a - 1) div b) + (a - 1) mod b" by simp
    then show "- a = b * - ((a - 1) div b + 1) + (b - 1 - (a - 1) mod b)"
      by (simp add: algebra_simps)
    show "0 \<le> b - 1 - (a - 1) mod b" using pos_mod_bound[OF assms, of "a - 1"] by linarith
    show "b - 1 - (a - 1) mod b < b" using pos_mod_sign[OF assms, of "a - 1"] by linarith
  qed
  then show ?thesis by (simp add: ceil_div_eq)
qed

lemma cyclic_count_nonneg:
  assumes "0 \<le> n" and "r < p" and "0 < p"
  shows "0 \<le> (n - 1 - r) div p + (1::int)"
proof -
  from assms have "- p \<le> n - 1 - r" by linarith
  then have "(- p) div p \<le> (n - 1 - r) div p" using assms(3) by (intro zdiv_mono1)
  moreover have "(- p) div p = - 1"
    by (rule int_div_pos_eq[where r = 0]) (use assms(3) in simp_all)
  ultimately show ?thesis by linarith
qed

lemma set_py_range3_pos:
  assumes "0 < p"
  shows "set (map (\<lambda>k. a + k * p) (py_range ((b - a - 1) div p + 1)))
         = {g. a \<le> g \<and> g < b \<and> (g - a) mod p = 0}" (is "?L = ?R")
proof (rule set_eqI)
  fix g
  show "g \<in> ?L \<longleftrightarrow> g \<in> ?R"
  proof
    assume "g \<in> ?L"
    then obtain k where k: "0 \<le> k" "k \<le> (b - a - 1) div p" and g: "g = a + k * p"
      by (auto simp: set_py_range)
    from k(2) assms have "k * p \<le> ((b - a - 1) div p) * p"
      by (simp add: mult_right_mono)
    also have "\<dots> \<le> b - a - 1" using assms by (rule div_mult_le_int)
    finally have "k * p \<le> b - a - 1" .
    with k(1) assms g show "g \<in> ?R" by simp
  next
    assume "g \<in> ?R"
    then have g: "a \<le> g" "g < b" "(g - a) mod p = 0" by auto
    define k where "k = (g - a) div p"
    have "g = a + k * p" using g(3) unfolding k_def by force
    moreover have "0 \<le> k" using g(1) assms unfolding k_def
      using pos_imp_zdiv_nonneg_iff by force
    moreover have "k \<le> (b - a - 1) div p" using g(2) assms unfolding k_def
      by (simp add: zdiv_mono1)
    ultimately show "g \<in> ?L" by (auto simp: set_py_range)
  qed
qed

lemma residue_class:
  assumes "0 \<le> r" and "r < p"
  shows "(r \<le> g \<and> (g - r) mod p = 0) \<longleftrightarrow> (0 \<le> g \<and> g mod p = (r::int))"
proof -
  have eq: "(g - r) mod p = 0 \<longleftrightarrow> g mod p = r"
    using assms by (metis mod_eq_dvd_iff mod_pos_pos_trivial mod_0_imp_dvd dvd_imp_mod_0)
  have "0 \<le> g \<Longrightarrow> g mod p = r \<Longrightarrow> r \<le> g"
    using zmod_le_nonneg_dividend[of g p] by simp
  with eq assms show ?thesis by auto
qed

lemma size_of_global_index:
  "size_of c = (case global_index_of c of Inl e \<Rightarrow> Inl e | Inr gi \<Rightarrow> Inr (int (length gi)))"
  by (simp add: size_of_def global_index_of_def AxisMap_size_def split: sum.splits)

lemma cyclic_owned_set:
  assumes "0 \<le> r" and "r < p"
  shows "global_index_of (NewCyclicMap n p r r) =
           Inr (map (\<lambda>k. r + k * p) (py_range ((n - r - 1) div p + 1)))"
    and "set (map (\<lambda>k. r + k * p) (py_range ((n - r - 1) div p + 1)))
           = {g. 0 \<le> g \<and> g < n \<and> g mod p = r}"
proof -
  from assms have p: "0 < p" by linarith
  with assms show "global_index_of (NewCyclicMap n p r r) =
           Inr (map (\<lambda>k. r + k * p) (py_range ((n - r - 1) div p + 1)))"
    by (simp add: global_index_of_def CyclicMap_init_def CyclicMap_global_index_def py_range3_def)
  show "set (map (\<lambda>k. r + k * p) (py_range ((n - r - 1) div p + 1)))
           = {g. 0 \<le> g \<and> g < n \<and> g mod p = r}"
  proof -
    have "(r \<le> g \<and> g < n \<and> (g - r) mod p = 0) = (0 \<le> g \<and> g < n \<and> g mod p = r)" for g
      using residue_class[OF assms, of g] by (cases "g < n") simp_all
    then show ?thesis unfolding set_py_range3_pos[OF p] by simp
  qed
qed

lemma upto_zero_numeral: "[0..numeral n] = 0 # [1..numeral n]"
  by (simp add: upto_rec1)

lemma upto_one_numeral: "[1..numeral n] = 1 # [2..numeral n]"
  by (simp add: upto_rec1)

lemma upto_zero_one: "[0..1] = [0, 1 :: int]"
  by (simp add: upto_rec1)

lemmas upto_numeral = upto_zero_numeral upto_one_numeral upto_zero_one

subsection \<open>C1: translating a local index to global and back\<close>

lemma BlockMap_roundtrip:
  "0 \<le> l \<Longrightarrow> l < BlockMap.local_size (BlockMap_init n p r s t) \<Longrightarrow>
   roundtrip (Block (BlockMap_init n p r s t)) l = Inr l"
  by (simp add: roundtrip_def BlockMap_init_def BlockMap_global_from_local_def
      BlockMap_local_from_global_def)

lemma CyclicMap_roundtrip:
  "CyclicMap_init n p r s = Inr m \<Longrightarrow> l < CyclicMap.local_size m \<Longrightarrow>
   roundtrip (Cyclic m) l = Inr l"
  by (auto simp: roundtrip_def CyclicMap_init_def CyclicMap_global_from_local_def
      CyclicMap_local_from_global_def split: if_splits)

lemma blockcyclic_recombine:
  fixes b :: int
  assumes "b \<noteq> 0"
  shows "(x * b + l mod b) div b = x" and "(x * b + l mod b) mod b = l mod b"
  using assms by (simp_all add: mult.commute)

lemma BlockCyclicMap_init_nonzero:
  assumes "BlockCyclicMap_init n p r s b = Inr m"
  shows "BlockCyclicMap.block_size m \<noteq> 0" and "BlockCyclicMap.grid_size m \<noteq> 0"
  using assms by (auto simp: BlockCyclicMap_init_def split: if_splits)

lemma BlockCyclicMap_roundtrip:
  assumes "BlockCyclicMap_init n p r s b = Inr m" and "l < BlockCyclicMap.local_size m"
  shows "roundtrip (BlockCyclic m) l = Inr l"
  using BlockCyclicMap_init_nonzero[OF assms(1)] assms(2)
  by (simp add: roundtrip_def BlockCyclicMap_global_from_local_def
      BlockCyclicMap_local_from_global_def Let_def blockcyclic_recombine)

lemma UnstructuredMap_roundtrip:
  assumes "distinct idx" and "0 \<le> l"
    and "l < UnstructuredMap.local_size (UnstructuredMap_init n p r idx)"
  shows "roundtrip (Unstructured (UnstructuredMap_init n p r idx)) l = Inr l"
proof -
  from assms have "nat l < length idx"
    by (simp add: UnstructuredMap_init_def)
  with assms(1) have "py_list_index idx (idx ! nat l) = Inr (int (nat l))"
    by (rule py_list_index_nth)
  with assms show ?thesis
    by (simp add: roundtrip_def UnstructuredMap_init_def UnstructuredMap_global_from_local_def
        UnstructuredMap_local_from_global_def py_getitem_def)
qed

text \<open>
  Claim C1.  Whenever a constructor call of any of the four classes succeeds, and the
  index list of an Unstructured map has no duplicates, every local index \<open>l\<close> with
  \<open>0 \<le> l < local_size\<close> satisfies \<open>local_from_global(global_from_local(l)) = l\<close>: both
  calls return, and the second returns \<open>l\<close>.  A successful Cyclic construction means
  \<open>start = grid_rank\<close> and \<open>start < grid_size\<close>; a successful Block-Cyclic construction
  means that \<open>block_size\<close> divides \<open>start\<close> and \<open>global_size\<close>.
\<close>

theorem C1_bijection:
  assumes "construct c = Inr m" and "duplicate_free c"
    and "0 \<le> l" and "l < AxisMap_local_size m"
  shows "roundtrip m l = Inr l"
proof (cases c)
  case (NewBlockMap n p r s t)
  with assms show ?thesis by (auto simp: BlockMap_roundtrip)
next
  case (NewCyclicMap n p r s)
  with assms show ?thesis by (auto split: sum.splits simp: CyclicMap_roundtrip)
next
  case (NewBlockCyclicMap n p r s b)
  with assms show ?thesis by (auto split: sum.splits simp: BlockCyclicMap_roundtrip)
next
  case (NewUnstructuredMap n p r idx)
  with assms show ?thesis by (auto simp: UnstructuredMap_roundtrip)
qed

theorem C1_bijection_witness:
  "roundtrip (Block (BlockMap_init 39 4 1 16 39)) 22 = Inr 22
   \<and> roundtrip (Cyclic \<lparr>CyclicMap.start = 2, CyclicMap.grid_size = 4, CyclicMap.grid_rank = 2,
         CyclicMap.local_size = 4, CyclicMap.global_size = 16\<rparr>) 3 = Inr 3
   \<and> roundtrip (BlockCyclic \<lparr>BlockCyclicMap.start = 2, BlockCyclicMap.start_block = 1,
         BlockCyclicMap.block_size = 2, BlockCyclicMap.grid_size = 4,
         BlockCyclicMap.local_size = 4, BlockCyclicMap.global_size = 16\<rparr>) 3 = Inr 3
   \<and> roundtrip (Unstructured (UnstructuredMap_init 10 2 0 [5, 1, 9])) 2 = Inr 2"
proof -
  have b: "construct (NewBlockMap 39 4 1 16 39) = Inr (Block (BlockMap_init 39 4 1 16 39))"
    by simp
  have c: "construct (NewCyclicMap 16 4 2 2) =
      Inr (Cyclic \<lparr>CyclicMap.start = 2, CyclicMap.grid_size = 4, CyclicMap.grid_rank = 2,
         CyclicMap.local_size = 4, CyclicMap.global_size = 16\<rparr>)"
    by (simp add: CyclicMap_init_def)
  have bc: "construct (NewBlockCyclicMap 16 4 1 2 2) =
      Inr (BlockCyclic \<lparr>BlockCyclicMap.start = 2, BlockCyclicMap.start_block = 1,
         BlockCyclicMap.block_size = 2, BlockCyclicMap.grid_size = 4,
         BlockCyclicMap.local_size = 4, BlockCyclicMap.global_size = 16\<rparr>)"
    by (simp add: BlockCyclicMap_init_def)
  have u: "construct (NewUnstructuredMap 10 2 0 [5, 1, 9]) =
      Inr (Unstructured (UnstructuredMap_init 10 2 0 [5, 1, 9]))"
    by simp
  have "roundtrip (Block (BlockMap_init 39 4 1 16 39)) 22 = Inr 22"
    by (rule C1_bijection[OF b]) (simp_all add: BlockMap_init_def)
  moreover have "roundtrip (Cyclic \<lparr>CyclicMap.start = 2, CyclicMap.grid_size = 4,
         CyclicMap.grid_rank = 2, CyclicMap.local_size = 4, CyclicMap.global_size = 16\<rparr>) 3
       = Inr 3"
    by (rule C1_bijection[OF c]) simp_all
  moreover have "roundtrip (BlockCyclic \<lparr>BlockCyclicMap.start = 2,
         BlockCyclicMap.start_block = 1, BlockCyclicMap.block_size = 2,
         BlockCyclicMap.grid_size = 4, BlockCyclicMap.local_size = 4,
         BlockCyclicMap.global_size = 16\<rparr>) 3 = Inr 3"
    by (rule C1_bijection[OF bc]) simp_all
  moreover have "roundtrip (Unstructured (UnstructuredMap_init 10 2 0 [5, 1, 9])) 2 = Inr 2"
    by (rule C1_bijection[OF u]) (simp_all add: UnstructuredMap_init_def)
  ultimately show ?thesis by simp
qed

subsection \<open>C2: descriptor round trip\<close>

lemma rebuild_Block:
  "rebuild (Block (BlockMap_init n p r s t)) = Inr (Block (BlockMap_init n p r s t))"
  by (simp add: rebuild_def BlockMap_dim_dict_def map_from_dim_dict_def BlockMap_init_def)

lemma rebuild_Cyclic:
  assumes "CyclicMap_init n p r s = Inr m"
  shows "rebuild (Cyclic m) = Inr (Cyclic m)"
proof -
  from assms have m: "m = \<lparr>CyclicMap.start = s, CyclicMap.grid_size = p, CyclicMap.grid_rank = r,
      CyclicMap.local_size = (n - 1 - r) div p + 1, CyclicMap.global_size = n\<rparr>"
    and ok: "s = r" "\<not> p \<le> s" "p \<noteq> 0"
    by (auto simp: CyclicMap_init_def split: if_splits)
  show ?thesis
    unfolding m using ok
    by (simp add: rebuild_def CyclicMap_dim_dict_def map_from_dim_dict_def CyclicMap_init_def)
qed

lemma rebuild_Unstructured:
  "rebuild (Unstructured (UnstructuredMap_init n p r idx))
     = Inr (Unstructured (UnstructuredMap_init n p r idx))"
  by (simp add: rebuild_def UnstructuredMap_dim_dict_def map_from_dim_dict_def
      UnstructuredMap_init_def)

lemma rebuild_BlockCyclic: "rebuild (BlockCyclic m) = Inl AttributeError"
  by (simp add: rebuild_def BlockCyclicMap_dim_dict_def)

text \<open>
  Claim C2.  The claim asks that \<^verbatim>\<open>map_from_dim_dict(m.dim_dict)\<close> succeed and behave as
  \<open>m\<close> for all four classes.  For a Block-Cyclic map the descriptor is never produced:
  \<^verbatim>\<open>BlockCyclicMap(16, 4, 1, 2, 2).dim_dict\<close> raises \<open>AttributeError\<close>, because the
  property reads \<^verbatim>\<open>self.grid_rank\<close>, which the constructor does not set.
\<close>

theorem C2_blockcyclic_dim_dict_raises:
  "dim_dict_of (NewBlockCyclicMap 16 4 1 2 2) = Inl AttributeError"
  by (simp add: dim_dict_of_def BlockCyclicMap_init_def BlockCyclicMap_dim_dict_def)

subsection \<open>C3: indices outside the owned set\<close>

lemma global_from_local_upper_bound:
  assumes "construct c = Inr m" and "AxisMap_local_size m \<le> l"
  shows "AxisMap_global_from_local m l = Inl IndexError"
proof (cases c)
  case (NewBlockMap n p r s t)
  with assms show ?thesis by (auto simp: BlockMap_global_from_local_def)
next
  case (NewCyclicMap n p r s)
  with assms show ?thesis by (auto simp: CyclicMap_global_from_local_def split: sum.splits)
next
  case (NewBlockCyclicMap n p r s b)
  with assms show ?thesis by (auto simp: BlockCyclicMap_global_from_local_def split: sum.splits)
next
  case (NewUnstructuredMap n p r idx)
  with assms show ?thesis
    by (auto simp: UnstructuredMap_global_from_local_def UnstructuredMap_init_def py_getitem_def)
qed

lemma BlockMap_local_from_global_owned:
  "BlockMap_local_from_global m g =
     (if g \<in> set (BlockMap_global_index m) then Inr (g - BlockMap.start m) else Inl IndexError)"
  by (auto simp: BlockMap_local_from_global_def BlockMap_global_index_def py_range2_def)

lemma py_list_index_absent: "x \<notin> set xs \<Longrightarrow> py_list_index xs x = Inl ValueError"
  by (induction xs) auto

lemma py_list_index_present:
  "x \<in> set xs \<Longrightarrow> \<exists>i. py_list_index xs x = Inr i \<and> 0 \<le> i \<and> i < int (length xs)"
  by (induction xs) auto

lemma UnstructuredMap_local_from_global_owned:
  "g \<notin> set (UnstructuredMap_global_index m) \<Longrightarrow>
     UnstructuredMap_local_from_global m g = Inl IndexError"
  "g \<in> set (UnstructuredMap_global_index m) \<Longrightarrow>
     \<exists>l. UnstructuredMap_local_from_global m g = Inr l
        \<and> 0 \<le> l \<and> l < int (length (UnstructuredMap.indices m))"
  using py_list_index_absent[of g "UnstructuredMap.indices m"]
    py_list_index_present[of g "UnstructuredMap.indices m"]
  by (auto simp: UnstructuredMap_local_from_global_def UnstructuredMap_global_index_def)

text \<open>
  Claim C3.  The claim asks that \<^verbatim>\<open>local_from_global(g)\<close> raise \<open>IndexError\<close> for every
  \<open>g\<close> outside the owned set, negative \<open>g\<close> and \<open>g \<ge> global_size\<close> included.
  \<^verbatim>\<open>CyclicMap(16, 4, 2, 2)\<close> owns \<open>2, 6, 10, 14\<close> and has \<open>local_size = 4\<close>, yet
  \<^verbatim>\<open>local_from_global(18)\<close> returns \<open>4\<close> and \<^verbatim>\<open>local_from_global(-2)\<close> returns \<open>-1\<close>;
  \<^verbatim>\<open>BlockCyclicMap(16, 4, 1, 2, 2)\<close> owns \<open>2, 3, 10, 11\<close>, yet
  \<^verbatim>\<open>local_from_global(18)\<close> returns \<open>4\<close> and \<^verbatim>\<open>local_from_global(-6)\<close> returns \<open>-2\<close>.
  Both methods test the residue only, not the range.
\<close>

theorem C3_local_from_global_out_of_range:
  "global_index_of (NewCyclicMap 16 4 2 2) = Inr [2, 6, 10, 14]
   \<and> local_size_of (NewCyclicMap 16 4 2 2) = Inr 4
   \<and> local_from_global_of (NewCyclicMap 16 4 2 2) 18 = Inr 4
   \<and> local_from_global_of (NewCyclicMap 16 4 2 2) (- 2) = Inr (- 1)
   \<and> global_index_of (NewBlockCyclicMap 16 4 1 2 2) = Inr [2, 3, 10, 11]
   \<and> local_size_of (NewBlockCyclicMap 16 4 1 2 2) = Inr 4
   \<and> local_from_global_of (NewBlockCyclicMap 16 4 1 2 2) 18 = Inr 4
   \<and> local_from_global_of (NewBlockCyclicMap 16 4 1 2 2) (- 6) = Inr (- 2)"
  by (simp add: global_index_of_def local_size_of_def local_from_global_of_def
      CyclicMap_init_def CyclicMap_global_index_def CyclicMap_local_from_global_def
      BlockCyclicMap_init_def BlockCyclicMap_global_index_def
      BlockCyclicMap_local_from_global_def BlockCyclicMap_global_from_local_def
      py_range3_def py_range_def Let_def upto_numeral)

subsection \<open>C4: the ranks partition the axis\<close>











subsection \<open>C5: Block-Cyclic against Cyclic and Block\<close>






subsection \<open>C6: what the constructors reject\<close>

text \<open>
  Claim C6, as stated, fails in its third part: \<^verbatim>\<open>UnstructuredMap(3, 1, 0, [5, 5, 1])\<close>,
  whose index list holds \<open>5\<close> twice, is constructed without error.
\<close>

theorem C6_unstructured_duplicates_accepted:
  "\<not> distinct [5, 5, 1 :: int] \<and> \<not> isl (construct (NewUnstructuredMap 3 1 0 [5, 5, 1]))"
  by simp

text \<open>
  Claim C6, amended.  Constructing a Cyclic map with \<open>start \<noteq> grid_rank\<close> raises
  \<open>ValueError\<close>; constructing a Block-Cyclic map whose global size is not an exact
  multiple of \<open>block_size\<close> raises an error (\<open>ValueError\<close>, or \<open>ZeroDivisionError\<close> when
  \<open>block_size\<close> is zero); the Unstructured constructor raises nothing, whatever the index
  list, duplicates included.
\<close>

theorem C6_construction_errors:
  "(s \<noteq> r \<longrightarrow> construct (NewCyclicMap n p r s) = Inl ValueError)
   \<and> (\<not> b dvd n \<longrightarrow>
        construct (NewBlockCyclicMap n p r s b)
          = Inl (if b = 0 then ZeroDivisionError else ValueError))
   \<and> construct (NewUnstructuredMap n p r idx)
        = Inr (Unstructured (UnstructuredMap_init n p r idx))"
proof (intro conjI impI)
  assume "s \<noteq> r"
  then show "construct (NewCyclicMap n p r s) = Inl ValueError"
    by (simp add: CyclicMap_init_def)
next
  assume nd: "\<not> b dvd n"
  have "n div b * b \<noteq> n" if "b \<noteq> 0"
    using nd by (metis dvd_triv_right)
  then show "construct (NewBlockCyclicMap n p r s b)
          = Inl (if b = 0 then ZeroDivisionError else ValueError)"
    by (simp add: BlockCyclicMap_init_def)
next
  show "construct (NewUnstructuredMap n p r idx)
        = Inr (Unstructured (UnstructuredMap_init n p r idx))"
    by simp
qed

theorem C6_construction_errors_witness:
  "(2::int) \<noteq> 1 \<and> construct (NewCyclicMap 16 4 1 2) = Inl ValueError
   \<and> \<not> (3::int) dvd 16 \<and> construct (NewBlockCyclicMap 16 4 0 0 3) = Inl ValueError
   \<and> \<not> (0::int) dvd 16 \<and> construct (NewBlockCyclicMap 16 4 0 0 0) = Inl ZeroDivisionError"
proof -
  have h: "(2::int) \<noteq> 1" "\<not> (3::int) dvd 16" "\<not> (0::int) dvd 16"
    by simp_all
  from C6_construction_errors[where s = 2 and r = 1 and n = 16 and p = 4 and b = 3
      and idx = "[]"] h
  have "construct (NewCyclicMap 16 4 1 2) = Inl ValueError"
    by simp
  moreover from C6_construction_errors[where s = 0 and r = 0 and n = 16 and p = 4 and b = 3
      and idx = "[]"] h
  have "construct (NewBlockCyclicMap 16 4 0 0 3) = Inl ValueError"
    by simp
  moreover from C6_construction_errors[where s = 0 and r = 0 and n = 16 and p = 4 and b = 0
      and idx = "[]"] h
  have "construct (NewBlockCyclicMap 16 4 0 0 0) = Inl ZeroDivisionError"
    by simp
  ultimately show ?thesis using h by simp
qed

subsection \<open>C7: translating an index tuple\<close>

















subsection \<open>C8: reconstruction from a descriptor table\<close>








subsection \<open>C9: the local size of a Cyclic map\<close>

text \<open>
  Claim C9.  A Cyclic map constructed with \<open>0 \<le> grid_rank < grid_size\<close>,
  \<open>start = grid_rank\<close> and \<open>global_size \<ge> 0\<close> has
  \<open>local_size = ceil_div(global_size - grid_rank, grid_size)\<close>, obtained as
  \<open>(global_size - 1 - grid_rank) // grid_size + 1\<close>, and this is the number of owned
  global indices, that is the length of \<^verbatim>\<open>global_index\<close> (the \<^verbatim>\<open>size\<close> property).
\<close>

theorem C9_cyclic_local_size:
  assumes "0 \<le> r" and "r < p" and "0 \<le> n"
  shows "local_size_of (NewCyclicMap n p r r) = Inr (ceil_div (n - r) p)
       \<and> local_size_of (NewCyclicMap n p r r) = Inr ((n - 1 - r) div p + 1)
       \<and> size_of (NewCyclicMap n p r r) = local_size_of (NewCyclicMap n p r r)"
proof -
  from assms have p: "0 < p" by linarith
  have ls: "local_size_of (NewCyclicMap n p r r) = Inr ((n - 1 - r) div p + 1)"
    using assms p by (simp add: local_size_of_def CyclicMap_init_def)
  have cd: "ceil_div (n - r) p = (n - 1 - r) div p + 1"
    using ceil_div_floor[OF p, of "n - r"] by (simp add: algebra_simps)
  have e: "n - r - 1 = n - 1 - r" by simp
  have "size_of (NewCyclicMap n p r r) = Inr (int (nat ((n - r - 1) div p + 1)))"
    by (simp add: size_of_global_index cyclic_owned_set(1)[OF assms(1,2)] length_py_range)
  then have sz: "size_of (NewCyclicMap n p r r) = Inr (int (nat ((n - 1 - r) div p + 1)))"
    unfolding e .
  from cyclic_count_nonneg[OF assms(3,2) p] sz ls cd show ?thesis by simp
qed

theorem C9_cyclic_local_size_witness:
  "(0::int) \<le> 2 \<and> (2::int) < 4 \<and> (0::int) \<le> 16
   \<and> local_size_of (NewCyclicMap 16 4 2 2) = Inr (ceil_div (16 - 2) 4)
   \<and> local_size_of (NewCyclicMap 16 4 2 2) = Inr ((16 - 1 - 2) div 4 + 1)
   \<and> size_of (NewCyclicMap 16 4 2 2) = local_size_of (NewCyclicMap 16 4 2 2)"
proof -
  have h: "(0::int) \<le> 2" "(2::int) < 4" "(0::int) \<le> 16"
    by simp_all
  from h C9_cyclic_local_size[OF h] show ?thesis
    by blast
qed

subsection \<open>C10: negative local indices\<close>



end
